theory Spec2Isabelle
  imports Main "HOL-Library.Word" "HOL-Library.Sublist" "HOL-Library.List_Lexorder"
begin

unbundle bit_operations_syntax

section \<open>Basic types of the store package\<close>

type_synonym byte = "8 word"
type_synonym bytes = "byte list"

text \<open>Modelled from the spec: the types \<open>Position\<close>, \<open>Size\<close> and \<open>KeySize\<close> (section 3),
  whose declarations are not among the sources. \<open>Position\<close> is an unsigned 64-bit file
  offset and \<open>Size\<close> an unsigned 32-bit byte length. The specification calls \<open>KeySize\<close> a
  16-bit value, but a record holds it in \<open>KeySizeBytes = 1\<close> byte (see the record codec
  below), so it is taken as an 8-bit value. \<open>BucketIndex\<close> is declared in buckets.go as
  uint32.\<close>

type_synonym Position = "64 word"
type_synonym Size = "32 word"
type_synonym KeySize = "8 word"
type_synonym BucketIndex = "32 word"

text \<open>The errors of the package, and the pass-through errors of the file system and of the
  primary storage, which the store only hands on.\<close>

datatype error = ErrOutOfBounds | ErrIndexTooLarge | ErrKeyExists | ErrIO string

section \<open>Bucket tables (buckets.go)\<close>

text \<open>\<open>1<<indexSizeBits\<close> inside \<open>make\<close>: the constant 1 takes the type \<open>int\<close>, which is
  64 bits wide here; the shift is done on that machine integer and the result read as the
  signed length of the slice.\<close>

definition shl1 :: "8 word \<Rightarrow> int" where
  "shl1 indexSizeBits = sint (push_bit (unat indexSizeBits) (1 :: 64 word))"

type_synonym Buckets = "Position list"
type_synonym SizeBuckets = "Size list"
type_synonym KeySizeBuckets = "KeySize list"

definition NewBuckets :: "8 word \<Rightarrow> error + Buckets" where
  "NewBuckets indexSizeBits =
     (if indexSizeBits > 32 then Inl ErrIndexTooLarge
      else Inr (replicate (nat (shl1 indexSizeBits)) 0))"

text \<open>\<open>Put\<close> writes into the slice it is called on; the model returns the updated slice.\<close>

definition Buckets_Put :: "Buckets \<Rightarrow> BucketIndex \<Rightarrow> Position \<Rightarrow> error + Buckets" where
  "Buckets_Put b index offset =
     (if int (unat index) > int (length b) - 1 then Inl ErrOutOfBounds
      else Inr (b[unat index := offset]))"

definition Buckets_Get :: "Buckets \<Rightarrow> BucketIndex \<Rightarrow> error + Position" where
  "Buckets_Get b index =
     (if int (unat index) > int (length b) - 1 then Inl ErrOutOfBounds
      else Inr (b ! unat index))"

definition NewSizeBuckets :: "8 word \<Rightarrow> error + SizeBuckets" where
  "NewSizeBuckets indexSizeBits =
     (if indexSizeBits > 32 then Inl ErrIndexTooLarge
      else Inr (replicate (nat (shl1 indexSizeBits)) 0))"

definition SizeBuckets_Put :: "SizeBuckets \<Rightarrow> BucketIndex \<Rightarrow> Size \<Rightarrow> error + SizeBuckets" where
  "SizeBuckets_Put b index offset =
     (if int (unat index) > int (length b) - 1 then Inl ErrOutOfBounds
      else Inr (b[unat index := offset]))"

definition SizeBuckets_Get :: "SizeBuckets \<Rightarrow> BucketIndex \<Rightarrow> error + Size" where
  "SizeBuckets_Get b index =
     (if int (unat index) > int (length b) - 1 then Inl ErrOutOfBounds
      else Inr (b ! unat index))"

definition NewKeySizeBuckets :: "8 word \<Rightarrow> error + KeySizeBuckets" where
  "NewKeySizeBuckets indexSizeBits =
     (if indexSizeBits > 32 then Inl ErrIndexTooLarge
      else Inr (replicate (nat (shl1 indexSizeBits)) 0))"

definition KeySizeBuckets_Put ::
  "KeySizeBuckets \<Rightarrow> BucketIndex \<Rightarrow> KeySize \<Rightarrow> error + KeySizeBuckets" where
  "KeySizeBuckets_Put b index keySize =
     (if int (unat index) > int (length b) - 1 then Inl ErrOutOfBounds
      else Inr (b[unat index := keySize]))"

definition KeySizeBuckets_Get :: "KeySizeBuckets \<Rightarrow> BucketIndex \<Rightarrow> error + KeySize" where
  "KeySizeBuckets_Get b index =
     (if int (unat index) > int (length b) - 1 then Inl ErrOutOfBounds
      else Inr (b ! unat index))"

section \<open>Block pointers\<close>

text \<open>Modelled from the spec: the types \<open>Block\<close> and \<open>KeyedBlock\<close> (section 3), whose
  declarations are not among the sources. \<open>Block\<close> says where a record lies in the primary
  and how long it is; \<open>KeyedBlock\<close> adds the length of the original key. The tests build
  them with the fields \<open>Offset\<close>, \<open>Size\<close>, \<open>Block\<close> and \<open>KeySize\<close>. \<open>KeyedBlock\<close> embeds
  \<open>Block\<close>, so \<open>blk.Size\<close> on a keyed block is \<open>Size (Block blk)\<close>.\<close>

record Block =
  Offset :: Position
  Size :: Size

record KeyedBlock =
  Block :: Block
  KeySize :: KeySize

text \<open>Modelled from the spec: \<open>Work\<close>, a count of bytes written or waiting to be written
  (glossary); its declaration is not among the sources. It is taken as an unsigned 64-bit
  value.\<close>

type_synonym Work = "64 word"

section \<open>The in-memory primary storage (package inmemory)\<close>

type_synonym InMemory = "(bytes \<times> bytes) list"

definition InMemory_Get :: "InMemory \<Rightarrow> Position \<Rightarrow> error + (bytes \<times> bytes)" where
  "InMemory_Get im pos =
     (let max = length im
      in if pos \<ge> of_nat max then Inl ErrOutOfBounds else Inr (im ! unat pos))"

definition InMemory_Put :: "InMemory \<Rightarrow> bytes \<Rightarrow> bytes \<Rightarrow> (error + Position) \<times> InMemory" where
  "InMemory_Put im key val = (let pos = length im in (Inr (of_nat pos), im @ [(key, val)]))"

definition InMemory_Flush :: "InMemory \<Rightarrow> (error + Work) \<times> InMemory" where
  "InMemory_Flush im = (Inr 0, im)"

definition InMemory_Sync :: "InMemory \<Rightarrow> error option \<times> InMemory" where
  "InMemory_Sync im = (None, im)"

definition InMemory_Close :: "InMemory \<Rightarrow> error option \<times> InMemory" where
  "InMemory_Close im = (None, im)"

definition InMemory_OutstandingWork :: "InMemory \<Rightarrow> Work" where
  "InMemory_OutstandingWork im = 0"

definition InMemory_IndexKey :: "InMemory \<Rightarrow> bytes \<Rightarrow> error + bytes" where
  "InMemory_IndexKey im key = Inr key"

definition InMemory_GetIndexKey :: "InMemory \<Rightarrow> Position \<Rightarrow> error + bytes" where
  "InMemory_GetIndexKey im blk =
     (case InMemory_Get im blk of
        Inl e \<Rightarrow> Inl e
      | Inr (key, _) \<Rightarrow> InMemory_IndexKey im key)"

section \<open>The store (store.go)\<close>

text \<open>The store works on an index that owns its primary storage (\<open>s.index.Primary\<close>). Both
  are used through their methods only: the primary is an interface, and the index is the
  \<open>Index\<close> type of the package, whose file is not among the sources. The record \<open>Deps\<close> collects the methods the store calls, over
  a state \<open>'ix\<close> of the index together with its primary. A method that writes returns the
  new state; a method with several results returns them as Go does, so \<open>Index_Get\<close> can
  report \<open>found = false\<close> together with an error.\<close>

record 'ix Deps =
  Primary_IndexKey :: "'ix \<Rightarrow> bytes \<Rightarrow> error + bytes"
  Primary_Get :: "'ix \<Rightarrow> Block \<Rightarrow> error + (bytes \<times> bytes)"
  Primary_GetIndexKey :: "'ix \<Rightarrow> KeyedBlock \<Rightarrow> error + bytes"
  Primary_Put :: "'ix \<Rightarrow> bytes \<Rightarrow> bytes \<Rightarrow> (error + Block) \<times> 'ix"
  Primary_Flush :: "'ix \<Rightarrow> (error + Work) \<times> 'ix"
  Primary_Sync :: "'ix \<Rightarrow> error option \<times> 'ix"
  Primary_Close :: "'ix \<Rightarrow> error option \<times> 'ix"
  Primary_OutstandingWork :: "'ix \<Rightarrow> Work"
  Index_Get :: "'ix \<Rightarrow> bytes \<Rightarrow> KeyedBlock \<times> bool \<times> error option"
  Index_Put :: "'ix \<Rightarrow> bytes \<Rightarrow> Block \<Rightarrow> error option \<times> 'ix"
  Index_Flush :: "'ix \<Rightarrow> (error + Work) \<times> 'ix"
  Index_Sync :: "'ix \<Rightarrow> error option \<times> 'ix"
  Index_Close :: "'ix \<Rightarrow> error option \<times> 'ix"
  Index_OutstandingWork :: "'ix \<Rightarrow> Work"

text \<open>The fields of \<open>Store\<close> that decide what its methods return. \<open>closing\<close> is the channel:
  \<open>True\<close> once it has been closed. The fields \<open>rate\<close>, \<open>burstRate\<close>, \<open>lastFlush\<close> and
  \<open>syncInterval\<close> hold wall-clock times and a floating-point rate; they decide only whether
  \<open>Put\<close> sleeps for 25 ms before it returns and are left out.\<close>

record 'ix Store =
  index :: 'ix
  opened :: bool
  running :: bool
  err :: "error option"
  closing :: bool

definition Err :: "'ix Store \<Rightarrow> error option" where
  "Err s = err s"

definition setErr :: "'ix Store \<Rightarrow> error \<Rightarrow> 'ix Store" where
  "setErr s e = s\<lparr>err := Some e\<rparr>"

text \<open>\<open>Get\<close> returns \<open>(value, found, err)\<close>; a nil slice is the empty list.\<close>

definition Get :: "'ix Deps \<Rightarrow> 'ix Store \<Rightarrow> bytes \<Rightarrow> bytes \<times> bool \<times> error option" where
  "Get D s key =
     (case Err s of
        Some e \<Rightarrow> ([], False, Some e)
      | None \<Rightarrow>
     (case Primary_IndexKey D (index s) key of
        Inl e \<Rightarrow> ([], False, Some e)
      | Inr indexKey \<Rightarrow>
     (case Index_Get D (index s) indexKey of
        (fileOffset, found, Some e) \<Rightarrow> ([], False, Some e)
      | (fileOffset, found, None) \<Rightarrow>
          if \<not> found then ([], False, None)
          else
     (case Primary_Get D (index s) (Block fileOffset) of
        Inl e \<Rightarrow> ([], False, Some e)
      | Inr (primaryKey, val) \<Rightarrow>
          if key \<noteq> primaryKey then ([], False, None)
          else (val, True, None)))))"

text \<open>In \<open>Has\<close> the error of \<open>s.index.Get\<close> is assigned but never read: the next statement
  tests \<open>found\<close> only, and \<open>err\<close> is overwritten by \<open>GetIndexKey\<close>.\<close>

definition Has :: "'ix Deps \<Rightarrow> 'ix Store \<Rightarrow> bytes \<Rightarrow> bool \<times> error option" where
  "Has D s key =
     (case Err s of
        Some e \<Rightarrow> (False, Some e)
      | None \<Rightarrow>
     (case Primary_IndexKey D (index s) key of
        Inl e \<Rightarrow> (False, Some e)
      | Inr indexKey \<Rightarrow>
     (case Index_Get D (index s) indexKey of
        (blk, found, _) \<Rightarrow>
          if \<not> found then (False, None)
          else
     (case Primary_GetIndexKey D (index s) blk of
        Inl e \<Rightarrow> (False, Some e)
      | Inr primaryIndexKey \<Rightarrow> (indexKey = primaryIndexKey, None)))))"

text \<open>\<open>GetSize\<close> does not look at \<open>s.Err()\<close>. \<open>Size(len(key))\<close> converts the length to
  uint32, and the subtraction is that of uint32.\<close>

definition GetSize :: "'ix Deps \<Rightarrow> 'ix Store \<Rightarrow> bytes \<Rightarrow> Size \<times> bool \<times> error option" where
  "GetSize D s key =
     (case Primary_IndexKey D (index s) key of
        Inl e \<Rightarrow> (0, False, Some e)
      | Inr indexKey \<Rightarrow>
     (case Index_Get D (index s) indexKey of
        (blk, found, Some e) \<Rightarrow> (0, False, Some e)
      | (blk, found, None) \<Rightarrow>
          if \<not> found then (0, False, None)
          else
     (case Primary_GetIndexKey D (index s) blk of
        Inl e \<Rightarrow> (0, False, Some e)
      | Inr primaryIndexKey \<Rightarrow>
          if indexKey \<noteq> primaryIndexKey then (0, False, None)
          else (Size (Block blk) - of_nat (length key), True, None))))"

text \<open>\<open>Put\<close> returns its error and the store as it leaves it. What remains of the method after
  \<open>s.index.Put\<close> computes whether to sleep and changes nothing.\<close>

definition Put :: "'ix Deps \<Rightarrow> 'ix Store \<Rightarrow> bytes \<Rightarrow> bytes \<Rightarrow> error option \<times> 'ix Store" where
  "Put D s key val =
     (case Err s of
        Some e \<Rightarrow> (Some e, s)
      | None \<Rightarrow>
     (case Has D s key of
        (has, Some e) \<Rightarrow> (Some e, s)
      | (has, None) \<Rightarrow>
          if has then (Some ErrKeyExists, s)
          else
     (case Primary_Put D (index s) key val of
        (Inl e, ix1) \<Rightarrow> (Some e, s\<lparr>index := ix1\<rparr>)
      | (Inr fileOffset, ix1) \<Rightarrow>
     (case Primary_IndexKey D ix1 key of
        Inl e \<Rightarrow> (Some e, s\<lparr>index := ix1\<rparr>)
      | Inr indexKey \<Rightarrow>
     (case Index_Put D ix1 indexKey fileOffset of
        (Some e, ix2) \<Rightarrow> (Some e, s\<lparr>index := ix2\<rparr>)
      | (None, ix2) \<Rightarrow> (None, s\<lparr>index := ix2\<rparr>))))))"

definition commit :: "'ix Deps \<Rightarrow> 'ix Store \<Rightarrow> (error + Work) \<times> 'ix Store" where
  "commit D s =
     (case Primary_Flush D (index s) of
        (Inl e, ix1) \<Rightarrow> (Inl e, s\<lparr>index := ix1\<rparr>)
      | (Inr primaryWork, ix1) \<Rightarrow>
     (case Index_Flush D ix1 of
        (Inl e, ix2) \<Rightarrow> (Inl e, s\<lparr>index := ix2\<rparr>)
      | (Inr indexWork, ix2) \<Rightarrow>
     (case Primary_Sync D ix2 of
        (Some e, ix3) \<Rightarrow> (Inl e, s\<lparr>index := ix3\<rparr>)
      | (None, ix3) \<Rightarrow>
     (case Index_Sync D ix3 of
        (Some e, ix4) \<Rightarrow> (Inl e, s\<lparr>index := ix4\<rparr>)
      | (None, ix4) \<Rightarrow> (Inr (primaryWork + indexWork), s\<lparr>index := ix4\<rparr>)))))"

definition outstandingWork :: "'ix Deps \<Rightarrow> 'ix Store \<Rightarrow> bool" where
  "outstandingWork D s =
     (Index_OutstandingWork D (index s) + Primary_OutstandingWork D (index s) > 0)"

text \<open>\<open>Flush\<close> is what the background task runs on every tick. Its bookkeeping of \<open>lastFlush\<close>
  and \<open>rate\<close> is left out with those fields.\<close>

definition Flush :: "'ix Deps \<Rightarrow> 'ix Store \<Rightarrow> 'ix Store" where
  "Flush D s =
     (if \<not> outstandingWork D s then s
      else (case commit D s of
              (Inl e, s1) \<Rightarrow> setErr s1 e
            | (Inr work, s1) \<Rightarrow> s1))"

text \<open>\<open>Start\<close> marks the store as running; the background task it launches is not part of the
  state.\<close>

definition Start :: "'ix Store \<Rightarrow> 'ix Store" where
  "Start s = s\<lparr>running := True\<rparr>"

definition Close :: "'ix Deps \<Rightarrow> 'ix Store \<Rightarrow> error option \<times> 'ix Store" where
  "Close D s =
     (let opn = opened s; s0 = s\<lparr>opened := False\<rparr>
      in if \<not> opn then (None, s0)
      else
        let rung = running s0;
            s1 = s0\<lparr>running := False\<rparr>;
            s2 = (if rung then s1\<lparr>closing := True\<rparr> else s1);
            s3 = (if outstandingWork D s2
                  then (case commit D s2 of
                          (Inl e, s') \<Rightarrow> setErr s' e
                        | (Inr work, s') \<Rightarrow> s')
                  else s2)
        in (case Err s3 of
              Some e \<Rightarrow> (Some e, s3)
            | None \<Rightarrow>
           (case Index_Close D (index s3) of
              (Some e, ix1) \<Rightarrow> (Some e, s3\<lparr>index := ix1\<rparr>)
            | (None, ix1) \<Rightarrow>
           (case Primary_Close D ix1 of
              (Some e, ix2) \<Rightarrow> (Some e, s3\<lparr>index := ix2\<rparr>)
            | (None, ix2) \<Rightarrow> (None, s3\<lparr>index := ix2\<rparr>)))))"

section \<open>The record codec and the record list\<close>

text \<open>The file with the record codec and the record list (\<open>EncodeKeyPosition\<close>,
  \<open>NewRecordList\<close>, the iterator, \<open>FindKeyPosition\<close>, \<open>Get\<close>) is not among the sources; only
  its tests are. The definitions of this section are modelled from the specification, and
  from the tests where they fix what the specification leaves open or states differently.\<close>

text \<open>Modelled from the spec: the constants of the record layout (section 4.1), which are
  declared in the missing file. \<open>KeySizeBytes\<close> is taken from the tests: the expected bytes
  of \<open>TestEncodeKeyPosition\<close> hold the key size in one byte, \<open>assertAddKey\<close> measures a
  record as \<open>FileOffsetBytes + FileSizeBytes + KeySizeBytes * 2 + len(key)\<close>, and the
  positions expected by \<open>TestRecordListFindKeyPosition\<close> and \<open>TestRecordListIterator\<close> give
  a record of a one-byte key 15 bytes.\<close>

definition FileOffsetBytes :: nat where "FileOffsetBytes = 8"
definition FileSizeBytes :: nat where "FileSizeBytes = 4"
definition KeySizeBytes :: nat where "KeySizeBytes = 1"
definition BucketPrefixSize :: nat where "BucketPrefixSize = 4"

text \<open>\<open>binary.LittleEndian.PutUint64\<close>, \<open>PutUint32\<close> and their inverses: the bytes of a word,
  least significant first.\<close>

definition le_bytes :: "nat \<Rightarrow> 'a::len word \<Rightarrow> bytes" where
  "le_bytes n w = map (\<lambda>i. ucast (drop_bit (8 * i) w)) [0..<n]"

fun le_word :: "bytes \<Rightarrow> 'a::len word" where
  "le_word [] = 0"
| "le_word (b # bs) = ucast b OR push_bit 8 (le_word bs)"

text \<open>\<open>bytes.Compare\<close>: -1, 0 or 1 as the first slice is lexicographically less than, equal
  to or greater than the second, bytes compared as unsigned numbers.\<close>

fun bytes_Compare :: "bytes \<Rightarrow> bytes \<Rightarrow> int" where
  "bytes_Compare [] [] = 0"
| "bytes_Compare [] (y # ys) = - 1"
| "bytes_Compare (x # xs) [] = 1"
| "bytes_Compare (x # xs) (y # ys) =
     (if x < y then - 1 else if y < x then 1 else bytes_Compare xs ys)"

text \<open>\<open>bytes.HasPrefix(s, prefix)\<close>.\<close>

definition bytes_HasPrefix :: "bytes \<Rightarrow> bytes \<Rightarrow> bool" where
  "bytes_HasPrefix s p = (length p \<le> length s \<and> take (length p) s = p)"

text \<open>Modelled from the spec: the types \<open>KeyPositionPair\<close> and \<open>Record\<close> (section 3), whose
  declarations are not among the sources. A \<open>KeyPositionPair\<close> is a key and the block it
  refers to; the tests build it by position. A \<open>Record\<close> is a \<open>KeyPositionPair\<close> with the
  byte position of the record in its list; \<open>record.Key\<close> and \<open>record.Block\<close> are the
  components of the embedded pair.\<close>

type_synonym KeyPositionPair = "bytes \<times> KeyedBlock"

record Record =
  KeyPositionPair :: KeyPositionPair
  Pos :: nat

definition Key :: "Record \<Rightarrow> bytes" where
  "Key r = fst (KeyPositionPair r)"

definition Record_Block :: "Record \<Rightarrow> KeyedBlock" where
  "Record_Block r = snd (KeyPositionPair r)"

text \<open>Modelled from the spec: \<open>EncodeKeyPosition\<close> (section 4.1). The offset in 8 bytes and
  the size in 4 bytes, little-endian; the key size; one byte with the length of the stored
  key; the stored key. The test calls it with a single result, so it cannot fail: the
  length byte is the conversion of \<open>len(key)\<close> to a byte. The key size takes
  \<open>KeySizeBytes\<close> bytes.\<close>

definition EncodeKeyPosition :: "KeyPositionPair \<Rightarrow> bytes" where
  "EncodeKeyPosition kpp =
     le_bytes FileOffsetBytes (Offset (Block (snd kpp)))
     @ le_bytes FileSizeBytes (Size (Block (snd kpp)))
     @ le_bytes KeySizeBytes (KeySize (snd kpp))
     @ [of_nat (length (fst kpp))]
     @ fst kpp"

text \<open>Modelled from the spec: the record list (section 3 and 4.2). A record list is the
  payload of a bucket; \<open>NewRecordList\<close> skips the 4 bytes in front of it. Slicing a buffer
  shorter than that panics: \<open>None\<close>.\<close>

type_synonym RecordList = bytes

definition NewRecordList :: "bytes \<Rightarrow> RecordList option" where
  "NewRecordList data =
     (if length data < BucketPrefixSize then None else Some (drop BucketPrefixSize data))"

text \<open>Modelled from the spec: reading one record at a byte position (section 4.1 and 4.2.4):
  decode the three fixed fields, read the length byte, slice that many bytes. The result is
  the record and the position behind it; \<open>None\<close> when the record does not fit in the
  payload, where the slicing panics.\<close>

definition ReadRecord :: "RecordList \<Rightarrow> nat \<Rightarrow> (Record \<times> nat) option" where
  "ReadRecord rl pos =
     (let sizeOffset = pos + FileOffsetBytes;
          keySizeOffset = sizeOffset + FileSizeBytes;
          keyLenOffset = keySizeOffset + KeySizeBytes;
          keyOffset = keyLenOffset + 1
      in if length rl < keyOffset then None
         else
           let offset = le_word (take FileOffsetBytes (drop pos rl));
               size = le_word (take FileSizeBytes (drop sizeOffset rl));
               keySize = le_word (take KeySizeBytes (drop keySizeOffset rl));
               keyLen = unat (rl ! keyLenOffset)
           in if length rl < keyOffset + keyLen then None
              else Some (\<lparr>KeyPositionPair =
                             (take keyLen (drop keyOffset rl),
                              \<lparr>Block = \<lparr>Offset = offset, Size = size\<rparr>, KeySize = keySize\<rparr>),
                           Pos = pos\<rparr>,
                         keyOffset + keyLen))"

text \<open>Modelled from the spec: the iterator (section 4.2.4). The cursor is a byte offset;
  \<open>Done\<close> tests whether it has reached the length of the payload, \<open>Next\<close> decodes one record
  and advances.\<close>

definition RecordListIter_Done :: "RecordList \<Rightarrow> nat \<Rightarrow> bool" where
  "RecordListIter_Done rl pos = (pos = length rl)"

definition RecordListIter_Next :: "RecordList \<Rightarrow> nat \<Rightarrow> (Record \<times> nat) option" where
  "RecordListIter_Next rl pos = ReadRecord rl pos"

text \<open>The records of a list from a position on, as the iterator yields them.\<close>

function records_from :: "RecordList \<Rightarrow> nat \<Rightarrow> Record list option" where
  "records_from rl pos =
     (if RecordListIter_Done rl pos then Some []
      else (case RecordListIter_Next rl pos of
              None \<Rightarrow> None
            | Some (record, next) \<Rightarrow>
                (case records_from rl next of
                   None \<Rightarrow> None
                 | Some rs \<Rightarrow> Some (record # rs))))"
  by pat_completeness auto
termination
  by (relation "measure (\<lambda>(rl, pos). length rl - pos)")
     (auto simp: RecordListIter_Next_def ReadRecord_def Let_def split: if_splits)

declare records_from.simps [simp del]

definition Iter :: "RecordList \<Rightarrow> Record list option" where
  "Iter rl = records_from rl 0"

text \<open>Modelled from the spec: \<open>FindKeyPosition\<close> (section 4.2.1). It walks the records in
  order and stops at the first record whose stored key is greater than the key; \<open>pos\<close> is
  the start of that record, or the length of the payload when there is none; \<open>prev\<close> is the
  last record before the stopping point and \<open>hasPrev\<close> says whether there is one. A record
  with a stored key equal to the key does not stop the walk: \<open>assertAddKey\<close> expects the
  record of a key just inserted as \<open>prev\<close> and the position behind it. Without a previous
  record, \<open>prev\<close> is the zero value of \<open>Record\<close>.\<close>

definition zero_KeyedBlock :: KeyedBlock where
  "zero_KeyedBlock = \<lparr>Block = \<lparr>Offset = 0, Size = 0\<rparr>, KeySize = 0\<rparr>"

definition zero_Record :: Record where
  "zero_Record = \<lparr>KeyPositionPair = ([], zero_KeyedBlock), Pos = 0\<rparr>"

function FindKeyPosition_loop ::
  "RecordList \<Rightarrow> bytes \<Rightarrow> nat \<Rightarrow> Record \<Rightarrow> bool \<Rightarrow> (nat \<times> Record \<times> bool) option" where
  "FindKeyPosition_loop rl key pos prev hasPrev =
     (if RecordListIter_Done rl pos then Some (length rl, prev, hasPrev)
      else (case RecordListIter_Next rl pos of
              None \<Rightarrow> None
            | Some (record, next) \<Rightarrow>
                if bytes_Compare (Key record) key = 1 then Some (Pos record, prev, hasPrev)
                else FindKeyPosition_loop rl key next record True))"
  by pat_completeness auto
termination
  by (relation "measure (\<lambda>(rl, key, pos, prev, hasPrev). length rl - pos)")
     (auto simp: RecordListIter_Next_def ReadRecord_def Let_def split: if_splits)

declare FindKeyPosition_loop.simps [simp del]

definition FindKeyPosition :: "RecordList \<Rightarrow> bytes \<Rightarrow> (nat \<times> Record \<times> bool) option" where
  "FindKeyPosition rl key = FindKeyPosition_loop rl key 0 zero_Record False"

text \<open>Modelled from the spec: the exact lookup \<open>Get\<close> of a record list (section 4.2.2). It
  walks the records in order; a record whose stored key is a prefix of the key is a match;
  a record that is no match and whose stored key is greater than the key ends the walk.
  Several stored keys can be prefixes of the key: the block of the last match is returned,
  as \<open>TestRecordListGetKey\<close> expects for the key \<open>ac\<close> in the list \<open>a, ac, b, ...\<close>. Without
  a match the result is the zero block and \<open>false\<close>.\<close>

definition RecordList_Get_result :: "Record option \<Rightarrow> KeyedBlock \<times> bool" where
  "RecordList_Get_result r =
     (case r of None \<Rightarrow> (zero_KeyedBlock, False) | Some rec \<Rightarrow> (Record_Block rec, True))"

function RecordList_Get_loop ::
  "RecordList \<Rightarrow> bytes \<Rightarrow> nat \<Rightarrow> Record option \<Rightarrow> (KeyedBlock \<times> bool) option" where
  "RecordList_Get_loop rl key pos r =
     (if RecordListIter_Done rl pos then Some (RecordList_Get_result r)
      else (case RecordListIter_Next rl pos of
              None \<Rightarrow> None
            | Some (record, next) \<Rightarrow>
                if bytes_HasPrefix key (Key record)
                then RecordList_Get_loop rl key next (Some record)
                else if bytes_Compare (Key record) key = 1
                then Some (RecordList_Get_result r)
                else RecordList_Get_loop rl key next r))"
  by pat_completeness auto
termination
  by (relation "measure (\<lambda>(rl, key, pos, r). length rl - pos)")
     (auto simp: RecordListIter_Next_def ReadRecord_def Let_def split: if_splits)

declare RecordList_Get_loop.simps [simp del]

definition RecordList_Get :: "RecordList \<Rightarrow> bytes \<Rightarrow> (KeyedBlock \<times> bool) option" where
  "RecordList_Get rl key = RecordList_Get_loop rl key 0 None"

text \<open>The keys of the tests are strings; \<open>bytes_of\<close> gives their bytes. \<open>test_data\<close> builds
  the buffer the tests build: the record of each key, with its index \<open>i\<close> as offset, size
  and key size, behind four zero bytes.\<close>

definition bytes_of :: "string \<Rightarrow> bytes" where
  "bytes_of s = map of_char s"

definition test_block :: "nat \<Rightarrow> KeyedBlock" where
  "test_block i = \<lparr>Block = \<lparr>Offset = of_nat i, Size = of_nat i\<rparr>, KeySize = of_nat i\<rparr>"

definition test_record :: "nat \<Rightarrow> string \<Rightarrow> KeyPositionPair" where
  "test_record i key = (bytes_of key, test_block i)"

definition test_data :: "string list \<Rightarrow> bytes" where
  "test_data keys =
     [0, 0, 0, 0] @ concat (map (\<lambda>(i, key). EncodeKeyPosition (test_record i key))
                              (enumerate 0 keys))"

text \<open>The two key lists of the tests.\<close>

definition find_keys :: "string list" where
  "find_keys = [''a'', ''ac'', ''b'', ''d'', ''de'', ''dn'', ''nky'', ''xrlfg'']"

definition get_keys :: "string list" where
  "get_keys = [''a'', ''ac'', ''b'', ''de'', ''dn'', ''nky'', ''xrlfg'']"

text \<open>Among the records \<open>rs\<close>, the last one whose stored key is a prefix of the key, or \<open>r\<close>
  when there is none.\<close>

definition last_match :: "bytes \<Rightarrow> Record list \<Rightarrow> Record option \<Rightarrow> Record option" where
  "last_match key rs r =
     (case filter (\<lambda>x. prefix (Key x) key) rs of [] \<Rightarrow> r | m # ms \<Rightarrow> Some (last (m # ms)))"

section \<open>An instance of the store\<close>

text \<open>To run the store on concrete inputs, \<open>mem_deps\<close> puts it on the in-memory primary and
  on a small index that keeps its records in a list and looks a key up by the first stored
  key that is a prefix of it. The in-memory primary addresses a record by its position; the
  block pointer handed to the index carries that position and the length of key and
  value.\<close>

type_synonym mem_index = "InMemory \<times> (bytes \<times> KeyedBlock) list"

definition mem_lookup :: "(bytes \<times> KeyedBlock) list \<Rightarrow> bytes \<Rightarrow> KeyedBlock \<times> bool \<times> error option" where
  "mem_lookup recs k =
     (case find (\<lambda>(sk, b). prefix sk k) recs of
        Some (sk, b) \<Rightarrow> (b, True, None)
      | None \<Rightarrow> (\<lparr>Block = \<lparr>Offset = 0, Size = 0\<rparr>, KeySize = 0\<rparr>, False, None))"

definition mem_deps :: "mem_index Deps" where
  "mem_deps =
     \<lparr>Primary_IndexKey = (\<lambda>(im, recs). InMemory_IndexKey im),
      Primary_Get = (\<lambda>(im, recs) blk. InMemory_Get im (Offset blk)),
      Primary_GetIndexKey = (\<lambda>(im, recs) blk. InMemory_GetIndexKey im (Offset (Block blk))),
      Primary_Put = (\<lambda>(im, recs) k v.
         (case InMemory_Put im k v of
            (Inl e, im') \<Rightarrow> (Inl e, (im', recs))
          | (Inr pos, im') \<Rightarrow>
              (Inr \<lparr>Offset = pos, Size = of_nat (length k + length v)\<rparr>, (im', recs)))),
      Primary_Flush = (\<lambda>(im, recs). (fst (InMemory_Flush im), (snd (InMemory_Flush im), recs))),
      Primary_Sync = (\<lambda>(im, recs). (fst (InMemory_Sync im), (snd (InMemory_Sync im), recs))),
      Primary_Close = (\<lambda>(im, recs). (fst (InMemory_Close im), (snd (InMemory_Close im), recs))),
      Primary_OutstandingWork = (\<lambda>(im, recs). InMemory_OutstandingWork im),
      Index_Get = (\<lambda>(im, recs) k. mem_lookup recs k),
      Index_Put = (\<lambda>(im, recs) k blk.
         (None, (im, recs @ [(k, \<lparr>Block = blk, KeySize = of_nat (length k)\<rparr>)]))),
      Index_Flush = (\<lambda>ix. (Inr 0, ix)),
      Index_Sync = (\<lambda>ix. (None, ix)),
      Index_Close = (\<lambda>ix. (None, ix)),
      Index_OutstandingWork = (\<lambda>ix. 0)\<rparr>"

text \<open>The same instance with an index file that cannot be written: there is work
  outstanding, and flushing it fails.\<close>

definition write_failing_deps :: "mem_index Deps" where
  "write_failing_deps =
     mem_deps\<lparr>Index_Flush := (\<lambda>ix. (Inl (ErrIO ''write failed''), ix)),
              Index_OutstandingWork := (\<lambda>ix. 1)\<rparr>"

text \<open>The same instance with an index file that cannot be read.\<close>

definition read_failing_deps :: "mem_index Deps" where
  "read_failing_deps =
     mem_deps\<lparr>Index_Get := (\<lambda>ix k.
        (\<lparr>Block = \<lparr>Offset = 0, Size = 0\<rparr>, KeySize = 0\<rparr>, False, Some (ErrIO ''read failed'')))\<rparr>"

text \<open>A store that holds the key \<open>[1, 2]\<close> with the value \<open>[9]\<close>; the index keeps the prefix
  \<open>[1]\<close> of the key.\<close>

definition mem_store :: "mem_index Store" where
  "mem_store =
     \<lparr>index = ([([1, 2], [9])],
               [([1], \<lparr>Block = \<lparr>Offset = 0, Size = 3\<rparr>, KeySize = 2\<rparr>)]),
      opened = True, running = True, err = None, closing = False\<rparr>"

section \<open>Properties of the record codec and the record list\<close>

lemma encode_vector:
  "EncodeKeyPosition (bytes_of ''abcdefg'', \<lparr>Block = \<lparr>Offset = 4326, Size = 64\<rparr>, KeySize = 14\<rparr>)
     = [0xe6, 0x10, 0x00, 0x00, 0x00, 0x00, 0x00, 0x00, 0x40, 0x00, 0x00, 0x00, 0x0e, 0x07,
        0x61, 0x62, 0x63, 0x64, 0x65, 0x66, 0x67]"
  by code_simp

lemma length_le_bytes: "length (le_bytes n w) = n"
  by (simp add: le_bytes_def)

lemma length_EncodeKeyPosition: "length (EncodeKeyPosition kpp) = 14 + length (fst kpp)"
  by (simp add: EncodeKeyPosition_def length_le_bytes FileOffsetBytes_def FileSizeBytes_def
        KeySizeBytes_def)

text \<open>Claim C1, as the code has it. The record of the key \<open>abcdefg\<close> with offset 4326, size 64
  and key size 14 is encoded in 21 bytes: the offset in 8 bytes and the size in 4 bytes,
  little-endian, the key size in one byte, one byte with the length of the stored key, and
  the stored key. A record with a stored key of at most 255 bytes is encoded in 14 bytes
  plus the stored key.\<close>

theorem EncodeKeyPosition_layout:
  "EncodeKeyPosition (bytes_of ''abcdefg'', \<lparr>Block = \<lparr>Offset = 4326, Size = 64\<rparr>, KeySize = 14\<rparr>)
     = [0xe6, 0x10, 0x00, 0x00, 0x00, 0x00, 0x00, 0x00, 0x40, 0x00, 0x00, 0x00, 0x0e, 0x07,
        0x61, 0x62, 0x63, 0x64, 0x65, 0x66, 0x67]
   \<and> (\<forall>kpp. length (fst kpp) \<le> 255 \<longrightarrow>
          length (EncodeKeyPosition kpp) = 14 + length (fst kpp))"
  using encode_vector length_EncodeKeyPosition by blast

lemma length_abcdefg: "length (bytes_of ''abcdefg'') = 7"
  by (simp add: bytes_of_def)

theorem EncodeKeyPosition_layout_witness:
  "length (bytes_of ''abcdefg'') \<le> 255
   \<and> length (EncodeKeyPosition
        (bytes_of ''abcdefg'', \<lparr>Block = \<lparr>Offset = 4326, Size = 64\<rparr>, KeySize = 14\<rparr>)) = 21"
proof -
  have le: "length (fst (bytes_of ''abcdefg'', \<lparr>Block = \<lparr>Offset = 4326, Size = 64\<rparr>, KeySize = 14\<rparr>)) \<le> 255"
    by (simp add: length_abcdefg)
  from EncodeKeyPosition_layout le
  have "length (EncodeKeyPosition
        (bytes_of ''abcdefg'', \<lparr>Block = \<lparr>Offset = 4326, Size = 64\<rparr>, KeySize = 14\<rparr>))
        = 14 + length (fst (bytes_of ''abcdefg'', \<lparr>Block = \<lparr>Offset = 4326, Size = 64\<rparr>, KeySize = 14\<rparr>))"
    by blast
  then show ?thesis by (simp add: length_abcdefg)
qed

text \<open>Claim C1 as stated gives 22 bytes for this record, with the key size in two bytes, and a
  length of 15 plus the stored key. The encoding differs from those 22 bytes and is not that
  long.\<close>

theorem EncodeKeyPosition_22_bytes_counterexample:
  "EncodeKeyPosition (bytes_of ''abcdefg'', \<lparr>Block = \<lparr>Offset = 4326, Size = 64\<rparr>, KeySize = 14\<rparr>)
     \<noteq> [0xe6, 0x10, 0x00, 0x00, 0x00, 0x00, 0x00, 0x00, 0x40, 0x00, 0x00, 0x00, 0x0e, 0x00, 0x07,
        0x61, 0x62, 0x63, 0x64, 0x65, 0x66, 0x67]
   \<and> length (EncodeKeyPosition
        (bytes_of ''abcdefg'', \<lparr>Block = \<lparr>Offset = 4326, Size = 64\<rparr>, KeySize = 14\<rparr>))
     \<noteq> 15 + length (bytes_of ''abcdefg'')"
  by (simp add: encode_vector length_abcdefg)

lemma find_list: "NewRecordList (test_data find_keys) = Some (drop 4 (test_data find_keys))"
  by code_simp

lemma find_ABCD:
  "FindKeyPosition (drop 4 (test_data find_keys)) (bytes_of ''ABCD'') = Some (0, zero_Record, False)"
  by code_simp

lemma find_ab:
  "FindKeyPosition (drop 4 (test_data find_keys)) (bytes_of ''ab'')
     = Some (15, \<lparr>KeyPositionPair = test_record 0 ''a'', Pos = 0\<rparr>, True)"
  by code_simp

lemma find_c:
  "FindKeyPosition (drop 4 (test_data find_keys)) (bytes_of ''c'')
     = Some (46, \<lparr>KeyPositionPair = test_record 2 ''b'', Pos = 31\<rparr>, True)"
  by code_simp

lemma find_cabefg:
  "FindKeyPosition (drop 4 (test_data find_keys)) (bytes_of ''cabefg'')
     = Some (46, \<lparr>KeyPositionPair = test_record 2 ''b'', Pos = 31\<rparr>, True)"
  by code_simp

lemma find_dg:
  "FindKeyPosition (drop 4 (test_data find_keys)) (bytes_of ''dg'')
     = Some (77, \<lparr>KeyPositionPair = test_record 4 ''de'', Pos = 61\<rparr>, True)"
  by code_simp

lemma find_hello:
  "FindKeyPosition (drop 4 (test_data find_keys)) (bytes_of ''hello'')
     = Some (93, \<lparr>KeyPositionPair = test_record 5 ''dn'', Pos = 77\<rparr>, True)"
  by code_simp

lemma find_pz:
  "FindKeyPosition (drop 4 (test_data find_keys)) (bytes_of ''pz'')
     = Some (110, \<lparr>KeyPositionPair = test_record 6 ''nky'', Pos = 93\<rparr>, True)"
  by code_simp

lemma find_z:
  "FindKeyPosition (drop 4 (test_data find_keys)) (bytes_of ''z'')
     = Some (129, \<lparr>KeyPositionPair = test_record 7 ''xrlfg'', Pos = 110\<rparr>, True)"
  by code_simp

text \<open>Claim C2. On the record list of the keys \<open>a, ac, b, d, de, dn, nky, xrlfg\<close>, the key of
  index \<open>i\<close> with offset, size and key size \<open>i\<close>, \<open>FindKeyPosition\<close> returns position 0 and
  no previous record for \<open>ABCD\<close>, 15 and the record of \<open>a\<close> for \<open>ab\<close>, 46 and the record of
  \<open>b\<close> for \<open>c\<close> and for \<open>cabefg\<close>, 77 and the record of \<open>de\<close> for \<open>dg\<close>, 93 and the record
  of \<open>dn\<close> for \<open>hello\<close>, 110 and the record of \<open>nky\<close> for \<open>pz\<close>, 129 and the record of
  \<open>xrlfg\<close> for \<open>z\<close>.\<close>

theorem FindKeyPosition_positions:
  "NewRecordList (test_data find_keys) = Some (drop 4 (test_data find_keys))
   \<and> FindKeyPosition (drop 4 (test_data find_keys)) (bytes_of ''ABCD'') = Some (0, zero_Record, False)
   \<and> FindKeyPosition (drop 4 (test_data find_keys)) (bytes_of ''ab'')
        = Some (15, \<lparr>KeyPositionPair = test_record 0 ''a'', Pos = 0\<rparr>, True)
   \<and> FindKeyPosition (drop 4 (test_data find_keys)) (bytes_of ''c'')
        = Some (46, \<lparr>KeyPositionPair = test_record 2 ''b'', Pos = 31\<rparr>, True)
   \<and> FindKeyPosition (drop 4 (test_data find_keys)) (bytes_of ''cabefg'')
        = Some (46, \<lparr>KeyPositionPair = test_record 2 ''b'', Pos = 31\<rparr>, True)
   \<and> FindKeyPosition (drop 4 (test_data find_keys)) (bytes_of ''dg'')
        = Some (77, \<lparr>KeyPositionPair = test_record 4 ''de'', Pos = 61\<rparr>, True)
   \<and> FindKeyPosition (drop 4 (test_data find_keys)) (bytes_of ''hello'')
        = Some (93, \<lparr>KeyPositionPair = test_record 5 ''dn'', Pos = 77\<rparr>, True)
   \<and> FindKeyPosition (drop 4 (test_data find_keys)) (bytes_of ''pz'')
        = Some (110, \<lparr>KeyPositionPair = test_record 6 ''nky'', Pos = 93\<rparr>, True)
   \<and> FindKeyPosition (drop 4 (test_data find_keys)) (bytes_of ''z'')
        = Some (129, \<lparr>KeyPositionPair = test_record 7 ''xrlfg'', Pos = 110\<rparr>, True)"
  by (intro conjI find_list find_ABCD find_ab find_c find_cabefg find_dg find_hello find_pz find_z)

lemma bytes_HasPrefix_iff: "bytes_HasPrefix s p = prefix p s"
proof
  assume "bytes_HasPrefix s p"
  then have "take (length p) s = p" by (simp add: bytes_HasPrefix_def)
  then show "prefix p s" by (metis take_is_prefix)
next
  assume "prefix p s"
  then obtain z where "s = p @ z" by (auto simp: prefix_def)
  then show "bytes_HasPrefix s p" by (simp add: bytes_HasPrefix_def)
qed

lemma bytes_Compare_eq:
  "bytes_Compare a b = (if a < b then - 1 else if a = b then 0 else 1)"
  by (induction a b rule: bytes_Compare.induct) auto

lemma bytes_Compare_greater: "(bytes_Compare a b = 1) = (b < a)"
  by (auto simp: bytes_Compare_eq)

lemma prefix_not_greater:
  fixes p k :: bytes
  assumes "prefix p k" shows "\<not> k < p"
proof -
  from assms obtain z where k: "k = p @ z" by (auto simp: prefix_def)
  have "p \<le> k"
  proof (cases z)
    case Nil
    with k show ?thesis by simp
  next
    case (Cons b z')
    then have "(p, p @ z) \<in> lexord {(u, v). u < v}" by (simp add: lexord_append_rightI)
    with k show ?thesis by (simp add: list_less_def list_le_def)
  qed
  then show ?thesis by simp
qed

lemma records_from_Nil:
  "records_from rl pos = Some [] \<Longrightarrow> RecordListIter_Done rl pos"
  by (subst (asm) records_from.simps) (auto split: if_splits option.splits)

lemma records_from_Cons:
  "records_from rl pos = Some (r # rs) \<Longrightarrow>
   \<not> RecordListIter_Done rl pos \<and>
   (\<exists>next. RecordListIter_Next rl pos = Some (r, next) \<and> records_from rl next = Some rs)"
  by (subst (asm) records_from.simps) (auto split: if_splits option.splits)

lemma last_match_Nil: "last_match key [] r = r"
  by (simp add: last_match_def)

lemma last_match_hit: "prefix (Key x) key \<Longrightarrow> last_match key (x # rs) r = last_match key rs (Some x)"
  by (simp add: last_match_def split: list.splits)

lemma last_match_miss: "\<not> prefix (Key x) key \<Longrightarrow> last_match key (x # rs) r = last_match key rs r"
  by (simp add: last_match_def)

lemma last_match_none: "\<forall>x \<in> set rs. \<not> prefix (Key x) key \<Longrightarrow> last_match key rs r = r"
  by (simp add: last_match_def filter_empty_conv[THEN iffD2] split: list.splits)

lemma Get_loop_sorted:
  "records_from rl pos = Some rs \<Longrightarrow> sorted_wrt (\<lambda>a b. Key a < Key b) rs \<Longrightarrow>
   RecordList_Get_loop rl key pos r = Some (RecordList_Get_result (last_match key rs r))"
proof (induction rs arbitrary: pos r)
  case Nil
  from records_from_Nil [OF Nil.prems(1)] show ?case
    by (subst RecordList_Get_loop.simps) (simp add: last_match_Nil)
next
  case (Cons x rs)
  from records_from_Cons [OF Cons.prems(1)] obtain "next" where
    nd: "\<not> RecordListIter_Done rl pos" and nx: "RecordListIter_Next rl pos = Some (x, next)"
    and rest: "records_from rl next = Some rs" by blast
  from Cons.prems(2) have srt: "sorted_wrt (\<lambda>a b. Key a < Key b) rs"
    and above: "\<forall>y \<in> set rs. Key x < Key y" by simp_all
  show ?case
  proof (cases "prefix (Key x) key")
    case True
    have "RecordList_Get_loop rl key pos r = RecordList_Get_loop rl key next (Some x)"
      by (subst RecordList_Get_loop.simps) (simp add: nd nx bytes_HasPrefix_iff True)
    also have "\<dots> = Some (RecordList_Get_result (last_match key rs (Some x)))"
      by (rule Cons.IH [OF rest srt])
    finally show ?thesis by (simp add: last_match_hit True)
  next
    case False
    show ?thesis
    proof (cases "key < Key x")
      case True
      have none: "\<forall>y \<in> set (x # rs). \<not> prefix (Key y) key"
      proof
        fix y assume "y \<in> set (x # rs)"
        with above have "Key x \<le> Key y" by auto
        with True have "key < Key y" by simp
        then show "\<not> prefix (Key y) key" using prefix_not_greater by blast
      qed
      have "RecordList_Get_loop rl key pos r = Some (RecordList_Get_result r)"
        by (subst RecordList_Get_loop.simps)
           (simp add: nd nx bytes_HasPrefix_iff False bytes_Compare_greater True)
      then show ?thesis by (simp add: last_match_none [OF none])
    next
      case nogt: False
      have "RecordList_Get_loop rl key pos r = RecordList_Get_loop rl key next r"
        by (subst RecordList_Get_loop.simps)
           (simp add: nd nx bytes_HasPrefix_iff False bytes_Compare_greater nogt)
      also have "\<dots> = Some (RecordList_Get_result (last_match key rs r))"
        by (rule Cons.IH [OF rest srt])
      finally show ?thesis by (simp add: last_match_miss False)
    qed
  qed
qed

lemma last_match_None_iff:
  "(last_match key rs None = None) = (\<forall>x \<in> set rs. \<not> prefix (Key x) key)"
proof -
  have "(last_match key rs None = None) = (filter (\<lambda>x. prefix (Key x) key) rs = [])"
    by (simp add: last_match_def split: list.splits)
  then show ?thesis by (simp add: filter_empty_conv)
qed

lemma last_match_Some:
  "last_match key rs None = Some x \<Longrightarrow> x \<in> set rs \<and> prefix (Key x) key"
proof -
  assume a: "last_match key rs None = Some x"
  let ?ms = "filter (\<lambda>x. prefix (Key x) key) rs"
  from a have ne: "?ms \<noteq> []" and l: "last ?ms = x"
    by (auto simp: last_match_def split: list.splits)
  from ne have "last ?ms \<in> set ?ms" by (rule last_in_set)
  with l show ?thesis by simp
qed

lemma get_list: "NewRecordList (test_data get_keys) = Some (drop 4 (test_data get_keys))"
  by code_simp

lemma get_dngho: "RecordList_Get (drop 4 (test_data get_keys)) (bytes_of ''dngho'') = Some (test_block 4, True)"
  by code_simp
lemma get_d: "RecordList_Get (drop 4 (test_data get_keys)) (bytes_of ''d'') = Some (zero_KeyedBlock, False)"
  by code_simp
lemma get_dg: "RecordList_Get (drop 4 (test_data get_keys)) (bytes_of ''dg'') = Some (zero_KeyedBlock, False)"
  by code_simp
lemma get_ABCD: "RecordList_Get (drop 4 (test_data get_keys)) (bytes_of ''ABCD'') = Some (zero_KeyedBlock, False)"
  by code_simp
lemma get_zzzzz: "RecordList_Get (drop 4 (test_data get_keys)) (bytes_of ''zzzzz'') = Some (zero_KeyedBlock, False)"
  by code_simp

text \<open>Claim C3. On a record list that decodes to the records \<open>rs\<close>, with stored keys in
  ascending order, \<open>Get\<close> returns \<open>found = true\<close> if and only if the stored key of some record
  is a prefix of the key (or equal to it), and the block it then returns is that of such a
  record. On the list of the keys \<open>a, ac, b, de, dn, nky, xrlfg\<close>, \<open>Get\<close> of \<open>dngho\<close> returns the
  block stored for \<open>dn\<close>, and \<open>Get\<close> of \<open>d\<close>, \<open>dg\<close>, \<open>ABCD\<close> and \<open>zzzzz\<close> return
  \<open>found = false\<close>.\<close>

theorem RecordList_Get_prefix_match:
  "(\<forall>rl rs key. Iter rl = Some rs \<and> sorted_wrt (\<lambda>a b. Key a < Key b) rs \<longrightarrow>
      (\<exists>blk found. RecordList_Get rl key = Some (blk, found)
         \<and> (found \<longleftrightarrow> (\<exists>r \<in> set rs. prefix (Key r) key))
         \<and> (found \<longrightarrow> (\<exists>r \<in> set rs. prefix (Key r) key \<and> blk = Record_Block r))))
   \<and> NewRecordList (test_data get_keys) = Some (drop 4 (test_data get_keys))
   \<and> RecordList_Get (drop 4 (test_data get_keys)) (bytes_of ''dngho'') = Some (test_block 4, True)
   \<and> RecordList_Get (drop 4 (test_data get_keys)) (bytes_of ''d'') = Some (zero_KeyedBlock, False)
   \<and> RecordList_Get (drop 4 (test_data get_keys)) (bytes_of ''dg'') = Some (zero_KeyedBlock, False)
   \<and> RecordList_Get (drop 4 (test_data get_keys)) (bytes_of ''ABCD'') = Some (zero_KeyedBlock, False)
   \<and> RecordList_Get (drop 4 (test_data get_keys)) (bytes_of ''zzzzz'') = Some (zero_KeyedBlock, False)"
proof -
  have gen: "\<exists>blk found. RecordList_Get rl key = Some (blk, found)
         \<and> (found \<longleftrightarrow> (\<exists>r \<in> set rs. prefix (Key r) key))
         \<and> (found \<longrightarrow> (\<exists>r \<in> set rs. prefix (Key r) key \<and> blk = Record_Block r))"
    if wf: "Iter rl = Some rs" and srt: "sorted_wrt (\<lambda>a b. Key a < Key b) rs"
    for rl rs key
  proof -
    from wf have "records_from rl 0 = Some rs" by (simp add: Iter_def)
    from Get_loop_sorted [OF this srt, of key None]
    have g: "RecordList_Get rl key = Some (RecordList_Get_result (last_match key rs None))"
      by (simp add: RecordList_Get_def)
    show ?thesis
    proof (cases "last_match key rs None")
      case None
      then have no: "\<not> (\<exists>r \<in> set rs. prefix (Key r) key)" by (simp add: last_match_None_iff)
      from g None have "RecordList_Get rl key = Some (zero_KeyedBlock, False)"
        by (simp add: RecordList_Get_result_def)
      with no show ?thesis by (intro exI [of _ zero_KeyedBlock] exI [of _ False]) simp
    next
      case (Some x)
      from last_match_Some [OF Some] have x: "x \<in> set rs" "prefix (Key x) key" by simp_all
      from g Some have "RecordList_Get rl key = Some (Record_Block x, True)"
        by (simp add: RecordList_Get_result_def)
      with x show ?thesis by (intro exI [of _ "Record_Block x"] exI [of _ True]) blast
    qed
  qed
  from gen get_list get_dngho get_d get_dg get_ABCD get_zzzzz show ?thesis by blast
qed

lemma get_Iter:
  "Iter (drop 4 (test_data get_keys)) =
     Some [\<lparr>KeyPositionPair = test_record 0 ''a'', Pos = 0\<rparr>,
           \<lparr>KeyPositionPair = test_record 1 ''ac'', Pos = 15\<rparr>,
           \<lparr>KeyPositionPair = test_record 2 ''b'', Pos = 31\<rparr>,
           \<lparr>KeyPositionPair = test_record 3 ''de'', Pos = 46\<rparr>,
           \<lparr>KeyPositionPair = test_record 4 ''dn'', Pos = 62\<rparr>,
           \<lparr>KeyPositionPair = test_record 5 ''nky'', Pos = 78\<rparr>,
           \<lparr>KeyPositionPair = test_record 6 ''xrlfg'', Pos = 95\<rparr>]"
  by code_simp

lemma get_sorted:
  "sorted_wrt (\<lambda>a b. Key a < Key b)
          [\<lparr>KeyPositionPair = test_record 0 ''a'', Pos = 0\<rparr>,
           \<lparr>KeyPositionPair = test_record 1 ''ac'', Pos = 15\<rparr>,
           \<lparr>KeyPositionPair = test_record 2 ''b'', Pos = 31\<rparr>,
           \<lparr>KeyPositionPair = test_record 3 ''de'', Pos = 46\<rparr>,
           \<lparr>KeyPositionPair = test_record 4 ''dn'', Pos = 62\<rparr>,
           \<lparr>KeyPositionPair = test_record 5 ''nky'', Pos = 78\<rparr>,
           \<lparr>KeyPositionPair = test_record 6 ''xrlfg'', Pos = 95\<rparr>]"
  by code_simp

lemma get_dn_prefix: "prefix (Key \<lparr>KeyPositionPair = test_record 4 ''dn'', Pos = 62\<rparr>) (bytes_of ''dngho'')"
  by code_simp

theorem RecordList_Get_prefix_match_witness:
  "Iter (drop 4 (test_data get_keys)) =
     Some [\<lparr>KeyPositionPair = test_record 0 ''a'', Pos = 0\<rparr>,
           \<lparr>KeyPositionPair = test_record 1 ''ac'', Pos = 15\<rparr>,
           \<lparr>KeyPositionPair = test_record 2 ''b'', Pos = 31\<rparr>,
           \<lparr>KeyPositionPair = test_record 3 ''de'', Pos = 46\<rparr>,
           \<lparr>KeyPositionPair = test_record 4 ''dn'', Pos = 62\<rparr>,
           \<lparr>KeyPositionPair = test_record 5 ''nky'', Pos = 78\<rparr>,
           \<lparr>KeyPositionPair = test_record 6 ''xrlfg'', Pos = 95\<rparr>]
   \<and> sorted_wrt (\<lambda>a b. Key a < Key b)
          [\<lparr>KeyPositionPair = test_record 0 ''a'', Pos = 0\<rparr>,
           \<lparr>KeyPositionPair = test_record 1 ''ac'', Pos = 15\<rparr>,
           \<lparr>KeyPositionPair = test_record 2 ''b'', Pos = 31\<rparr>,
           \<lparr>KeyPositionPair = test_record 3 ''de'', Pos = 46\<rparr>,
           \<lparr>KeyPositionPair = test_record 4 ''dn'', Pos = 62\<rparr>,
           \<lparr>KeyPositionPair = test_record 5 ''nky'', Pos = 78\<rparr>,
           \<lparr>KeyPositionPair = test_record 6 ''xrlfg'', Pos = 95\<rparr>]
   \<and> (\<exists>blk. RecordList_Get (drop 4 (test_data get_keys)) (bytes_of ''dngho'') = Some (blk, True))"
proof -
  let ?rs = "[\<lparr>KeyPositionPair = test_record 0 ''a'', Pos = 0\<rparr>,
           \<lparr>KeyPositionPair = test_record 1 ''ac'', Pos = 15\<rparr>,
           \<lparr>KeyPositionPair = test_record 2 ''b'', Pos = 31\<rparr>,
           \<lparr>KeyPositionPair = test_record 3 ''de'', Pos = 46\<rparr>,
           \<lparr>KeyPositionPair = test_record 4 ''dn'', Pos = 62\<rparr>,
           \<lparr>KeyPositionPair = test_record 5 ''nky'', Pos = 78\<rparr>,
           \<lparr>KeyPositionPair = test_record 6 ''xrlfg'', Pos = 95\<rparr>]"
  have ex: "\<exists>r \<in> set ?rs. prefix (Key r) (bytes_of ''dngho'')"
    using get_dn_prefix by simp
  from RecordList_Get_prefix_match get_Iter get_sorted
  obtain blk found where
    g: "RecordList_Get (drop 4 (test_data get_keys)) (bytes_of ''dngho'') = Some (blk, found)"
    and f: "found \<longleftrightarrow> (\<exists>r \<in> set ?rs. prefix (Key r) (bytes_of ''dngho''))"
    by blast
  from f ex have "found" by (rule iffD2)
  with g have e: "\<exists>blk. RecordList_Get (drop 4 (test_data get_keys)) (bytes_of ''dngho'') = Some (blk, True)"
    by (intro exI [of _ blk]) simp
  show ?thesis by (intro conjI) (rule get_Iter, rule get_sorted, rule e)
qed

section \<open>Properties of the bucket tables\<close>

lemma shl1_pow: 
  assumes "indexSizeBits \<le> 32" shows "shl1 indexSizeBits = 2 ^ unat indexSizeBits"
proof -
  let ?n = "unat indexSizeBits"
  from assms have u: "?n \<le> 32" by (simp add: word_le_nat_alt)
  have lt: "(2::int) ^ ?n < 2 ^ 63"
    using u by (intro power_strict_increasing) auto
  then have lt2: "(2::int) ^ ?n < 2 ^ 64" by simp
  have "uint (push_bit ?n (1 :: 64 word)) = take_bit 64 (push_bit ?n (uint (1 :: 64 word)))"
    by (rule unsigned_push_bit_eq [where 'b = 64 and 'a = int, simplified])
  also have "\<dots> = 2 ^ ?n"
    using lt2 u by (simp add: push_bit_eq_mult take_bit_int_eq_self)
  finally have ui: "uint (push_bit ?n (1 :: 64 word)) = 2 ^ ?n" .
  have "shl1 indexSizeBits = signed_take_bit 63 ((2::int) ^ ?n)"
    unfolding shl1_def sint_uint ui by simp
  also have "\<dots> = 2 ^ ?n"
  proof (rule signed_take_bit_int_eq_self)
    have "- (2 ^ 63) \<le> (0::int)" by simp
    also have "(0::int) \<le> 2 ^ ?n" by simp
    finally show "- (2 ^ 63) \<le> (2::int) ^ ?n" .
    show "(2::int) ^ ?n < 2 ^ 63" by (rule lt)
  qed
  finally show ?thesis .
qed

lemma slice_len: "indexSizeBits \<le> 32 \<Longrightarrow> nat (shl1 indexSizeBits) = 2 ^ unat indexSizeBits"
  by (simp add: shl1_pow nat_power_eq)

lemma index_test: "(int (length b) - 1 < int k) = (\<not> k < length b)"
  by linarith

lemma Buckets_Get_eq:
  "Buckets_Get b i = (if unat i < length b then Inr (b ! unat i) else Inl ErrOutOfBounds)"
  unfolding Buckets_Get_def index_test by simp

lemma Buckets_Put_eq:
  "Buckets_Put b i v = (if unat i < length b then Inr (b[unat i := v]) else Inl ErrOutOfBounds)"
  unfolding Buckets_Put_def index_test by simp

lemma SizeBuckets_Get_eq:
  "SizeBuckets_Get b i = (if unat i < length b then Inr (b ! unat i) else Inl ErrOutOfBounds)"
  unfolding SizeBuckets_Get_def index_test by simp

lemma SizeBuckets_Put_eq:
  "SizeBuckets_Put b i v = (if unat i < length b then Inr (b[unat i := v]) else Inl ErrOutOfBounds)"
  unfolding SizeBuckets_Put_def index_test by simp

lemma KeySizeBuckets_Get_eq:
  "KeySizeBuckets_Get b i = (if unat i < length b then Inr (b ! unat i) else Inl ErrOutOfBounds)"
  unfolding KeySizeBuckets_Get_def index_test by simp

lemma KeySizeBuckets_Put_eq:
  "KeySizeBuckets_Put b i v = (if unat i < length b then Inr (b[unat i := v]) else Inl ErrOutOfBounds)"
  unfolding KeySizeBuckets_Put_def index_test by simp

text \<open>Claim C8. Constructing a bucket table with more than 32 index bits fails with
  \<open>ErrIndexTooLarge\<close>; with at most 32 bits it yields a slice of \<open>2 ^ indexSizeBits\<close> entries.
  On a table of that length, \<open>Get\<close> and \<open>Put\<close> at an index of at least \<open>2 ^ indexSizeBits\<close>
  fail with \<open>ErrOutOfBounds\<close>, and at a smaller index they succeed: \<open>Get\<close> returns the entry
  and \<open>Put\<close> overwrites it. This holds for each of the three tables.\<close>

theorem bucket_tables_bounds:
  fixes n :: "8 word"
  shows "(32 < n \<longrightarrow>
            NewBuckets n = Inl ErrIndexTooLarge \<and> NewSizeBuckets n = Inl ErrIndexTooLarge
          \<and> NewKeySizeBuckets n = Inl ErrIndexTooLarge)
       \<and> (n \<le> 32 \<longrightarrow>
            (\<exists>b. NewBuckets n = Inr b \<and> length b = 2 ^ unat n)
          \<and> (\<exists>b. NewSizeBuckets n = Inr b \<and> length b = 2 ^ unat n)
          \<and> (\<exists>b. NewKeySizeBuckets n = Inr b \<and> length b = 2 ^ unat n))
       \<and> (\<forall>b i v. length b = 2 ^ unat n \<longrightarrow>
            (2 ^ unat n \<le> unat i \<longrightarrow>
               Buckets_Get b i = Inl ErrOutOfBounds \<and> Buckets_Put b i v = Inl ErrOutOfBounds)
          \<and> (unat i < 2 ^ unat n \<longrightarrow>
               Buckets_Get b i = Inr (b ! unat i) \<and> Buckets_Put b i v = Inr (b[unat i := v])))
       \<and> (\<forall>b i v. length b = 2 ^ unat n \<longrightarrow>
            (2 ^ unat n \<le> unat i \<longrightarrow>
               SizeBuckets_Get b i = Inl ErrOutOfBounds \<and> SizeBuckets_Put b i v = Inl ErrOutOfBounds)
          \<and> (unat i < 2 ^ unat n \<longrightarrow>
               SizeBuckets_Get b i = Inr (b ! unat i) \<and> SizeBuckets_Put b i v = Inr (b[unat i := v])))
       \<and> (\<forall>b i v. length b = 2 ^ unat n \<longrightarrow>
            (2 ^ unat n \<le> unat i \<longrightarrow>
               KeySizeBuckets_Get b i = Inl ErrOutOfBounds
             \<and> KeySizeBuckets_Put b i v = Inl ErrOutOfBounds)
          \<and> (unat i < 2 ^ unat n \<longrightarrow>
               KeySizeBuckets_Get b i = Inr (b ! unat i)
             \<and> KeySizeBuckets_Put b i v = Inr (b[unat i := v])))"
proof (intro conjI)
  show "32 < n \<longrightarrow>
            NewBuckets n = Inl ErrIndexTooLarge \<and> NewSizeBuckets n = Inl ErrIndexTooLarge
          \<and> NewKeySizeBuckets n = Inl ErrIndexTooLarge"
    by (simp add: NewBuckets_def NewSizeBuckets_def NewKeySizeBuckets_def)
  show "n \<le> 32 \<longrightarrow>
            (\<exists>b. NewBuckets n = Inr b \<and> length b = 2 ^ unat n)
          \<and> (\<exists>b. NewSizeBuckets n = Inr b \<and> length b = 2 ^ unat n)
          \<and> (\<exists>b. NewKeySizeBuckets n = Inr b \<and> length b = 2 ^ unat n)"
    by (simp add: NewBuckets_def NewSizeBuckets_def NewKeySizeBuckets_def slice_len
          linorder_not_less [symmetric])
  show "\<forall>b i v. length b = 2 ^ unat n \<longrightarrow>
            (2 ^ unat n \<le> unat i \<longrightarrow>
               Buckets_Get b i = Inl ErrOutOfBounds \<and> Buckets_Put b i v = Inl ErrOutOfBounds)
          \<and> (unat i < 2 ^ unat n \<longrightarrow>
               Buckets_Get b i = Inr (b ! unat i) \<and> Buckets_Put b i v = Inr (b[unat i := v]))"
    by (simp add: Buckets_Get_eq Buckets_Put_eq)
  show "\<forall>b i v. length b = 2 ^ unat n \<longrightarrow>
            (2 ^ unat n \<le> unat i \<longrightarrow>
               SizeBuckets_Get b i = Inl ErrOutOfBounds \<and> SizeBuckets_Put b i v = Inl ErrOutOfBounds)
          \<and> (unat i < 2 ^ unat n \<longrightarrow>
               SizeBuckets_Get b i = Inr (b ! unat i) \<and> SizeBuckets_Put b i v = Inr (b[unat i := v]))"
    by (simp add: SizeBuckets_Get_eq SizeBuckets_Put_eq)
  show "\<forall>b i v. length b = 2 ^ unat n \<longrightarrow>
            (2 ^ unat n \<le> unat i \<longrightarrow>
               KeySizeBuckets_Get b i = Inl ErrOutOfBounds
             \<and> KeySizeBuckets_Put b i v = Inl ErrOutOfBounds)
          \<and> (unat i < 2 ^ unat n \<longrightarrow>
               KeySizeBuckets_Get b i = Inr (b ! unat i)
             \<and> KeySizeBuckets_Put b i v = Inr (b[unat i := v]))"
    by (simp add: KeySizeBuckets_Get_eq KeySizeBuckets_Put_eq)
qed

theorem bucket_tables_bounds_witness:
  "NewBuckets 33 = Inl ErrIndexTooLarge
   \<and> (\<exists>b. NewBuckets 2 = Inr b \<and> length b = 4)
   \<and> Buckets_Get [5, 6, 7, 8] 4 = Inl ErrOutOfBounds
   \<and> Buckets_Put [5, 6, 7, 8] 4 9 = Inl ErrOutOfBounds
   \<and> Buckets_Get [5, 6, 7, 8] 3 = Inr 8
   \<and> Buckets_Put [5, 6, 7, 8] 3 9 = Inr [5, 6, 7, 9]"
proof -
  have big: "(32 :: 8 word) < 33" by simp
  have small: "(2 :: 8 word) \<le> 32" by simp
  have len: "length [5, 6, 7, 8 :: Position] = 2 ^ unat (2 :: 8 word)" by simp
  have out: "2 ^ unat (2 :: 8 word) \<le> unat (4 :: BucketIndex)" by simp
  have inside: "unat (3 :: BucketIndex) < 2 ^ unat (2 :: 8 word)" by simp
  from bucket_tables_bounds [of 33] big
  have a: "NewBuckets 33 = Inl ErrIndexTooLarge" by blast
  from bucket_tables_bounds [of 2] small
  obtain b where b: "NewBuckets 2 = Inr b" "length b = 2 ^ unat (2 :: 8 word)" by blast
  then have b0: "\<exists>b. NewBuckets 2 = Inr b \<and> length b = 4" by simp
  from bucket_tables_bounds [of 2] len out
  have c: "Buckets_Get [5, 6, 7, 8] 4 = Inl ErrOutOfBounds
         \<and> Buckets_Put [5, 6, 7, 8] 4 9 = Inl ErrOutOfBounds" by blast
  from bucket_tables_bounds [of 2] len inside
  have d: "Buckets_Get [5, 6, 7, 8] 3 = Inr ([5, 6, 7, 8] ! unat (3 :: BucketIndex))
         \<and> Buckets_Put [5, 6, 7, 8] 3 9 = Inr ([5, 6, 7, 8][unat (3 :: BucketIndex) := 9])" by blast
  have u3: "unat (3 :: BucketIndex) = 3" by simp
  have e: "[5, 6, 7, 8 :: Position] ! 3 = 8" "[5, 6, 7, 8 :: Position][3 := 9] = [5, 6, 7, 9]"
    by (simp_all add: numeral_eq_Suc)
  from d have d': "Buckets_Get [5, 6, 7, 8] 3 = Inr 8 \<and> Buckets_Put [5, 6, 7, 8] 3 9 = Inr [5, 6, 7, 9]"
    unfolding u3 e .
  from a b0 c d' show ?thesis by blast
qed

section \<open>Properties of the store\<close>

lemma opened_commit: "opened (snd (commit D s)) = opened s"
  by (simp add: commit_def split: prod.splits sum.splits option.splits)

lemma opened_after_commit: "commit D s = (r, s') \<Longrightarrow> opened s' = opened s"
  using opened_commit [of D s] by simp

lemma opened_Close: "opened (snd (Close D s)) = False"
proof (cases "opened s")
  case False
  then show ?thesis by (simp add: Close_def Let_def)
next
  case True
  define s2 where "s2 = (if running s then s\<lparr>opened := False, running := False, closing := True\<rparr>
                          else s\<lparr>opened := False, running := False\<rparr>)"
  define s3 where "s3 = (if outstandingWork D s2
                  then (case commit D s2 of
                          (Inl e, s') \<Rightarrow> setErr s' e
                        | (Inr work, s') \<Rightarrow> s')
                  else s2)"
  have o2: "opened s2 = False" by (simp add: s2_def)
  have o3: "opened s3 = False"
  proof (cases "outstandingWork D s2")
    case False
    then show ?thesis by (simp add: s3_def o2)
  next
    case True
    obtain r s' where c: "commit D s2 = (r, s')" by (cases "commit D s2")
    from opened_after_commit [OF c] o2 have "opened s' = False" by simp
    then show ?thesis using True c by (cases r) (simp_all add: s3_def setErr_def)
  qed
  have eq: "Close D s = (case Err s3 of
              Some e \<Rightarrow> (Some e, s3)
            | None \<Rightarrow>
           (case Index_Close D (index s3) of
              (Some e, ix1) \<Rightarrow> (Some e, s3\<lparr>index := ix1\<rparr>)
            | (None, ix1) \<Rightarrow>
           (case Primary_Close D ix1 of
              (Some e, ix2) \<Rightarrow> (Some e, s3\<lparr>index := ix2\<rparr>)
            | (None, ix2) \<Rightarrow> (None, s3\<lparr>index := ix2\<rparr>))))"
    using True unfolding Close_def Let_def s3_def s2_def by simp
  show ?thesis unfolding eq using o3
    by (simp split: option.splits prod.splits)
qed

lemma Close_closed: "\<not> opened s \<Longrightarrow> Close D s = (None, s)"
  by (simp add: Close_def Let_def)

text \<open>Claim C9. \<open>Close\<close> is idempotent: whatever the first \<open>Close\<close> did and returned, a
  second \<open>Close\<close> returns no error and leaves the store, its index and its primary as they
  were.\<close>

theorem Close_twice: "Close D (snd (Close D s)) = (None, snd (Close D s))"
  by (rule Close_closed) (simp add: opened_Close)

lemmas mem_simps =
  mem_deps_def write_failing_deps_def read_failing_deps_def mem_store_def mem_lookup_def
  InMemory_Get_def InMemory_Put_def InMemory_IndexKey_def InMemory_GetIndexKey_def
  InMemory_Flush_def InMemory_Sync_def InMemory_Close_def InMemory_OutstandingWork_def
  Err_def setErr_def

lemma mem_IndexKey: "Primary_IndexKey mem_deps (index mem_store) k = Inr k"
  by (simp add: mem_simps)

lemma mem_Index_Get_12:
  "Index_Get mem_deps (index mem_store) [1, 2]
     = (\<lparr>Block = \<lparr>Offset = 0, Size = 3\<rparr>, KeySize = 2\<rparr>, True, None)"
  by (simp add: mem_simps)

lemma mem_Index_Get_13:
  "Index_Get mem_deps (index mem_store) [1, 3]
     = (\<lparr>Block = \<lparr>Offset = 0, Size = 3\<rparr>, KeySize = 2\<rparr>, True, None)"
  by (simp add: mem_simps)

lemma mem_Primary_Get:
  "Primary_Get mem_deps (index mem_store) (Block \<lparr>Block = \<lparr>Offset = 0, Size = 3\<rparr>, KeySize = 2\<rparr>)
     = Inr ([1, 2], [9])"
  by (simp add: mem_simps)

lemma mem_Primary_GetIndexKey:
  "Primary_GetIndexKey mem_deps (index mem_store) \<lparr>Block = \<lparr>Offset = 0, Size = 3\<rparr>, KeySize = 2\<rparr>
     = Inr [1, 2]"
  by (simp add: mem_simps)

lemma mem_Err: "Err mem_store = None"
  by (simp add: mem_simps)

lemma mem_Has: "Has mem_deps mem_store [1, 2] = (True, None)"
  by (simp add: Has_def mem_Err mem_IndexKey mem_Index_Get_12 mem_Primary_GetIndexKey)

text \<open>Claim C4. \<open>Get\<close> returns a value with \<open>found = true\<close> exactly when no error is stored,
  the index key is derived, the index lookup succeeds with a match, and the primary holds at
  the returned block a full key equal to the key asked for, together with that value. If the
  index reports a match but the full key read from the primary differs from the key asked
  for, \<open>Get\<close> returns \<open>found = false\<close> and no error.\<close>

theorem Get_full_key_match:
  "(Get D s k = (v, True, e) \<longleftrightarrow>
      e = None \<and> Err s = None \<and>
      (\<exists>ik blk. Primary_IndexKey D (index s) k = Inr ik
              \<and> Index_Get D (index s) ik = (blk, True, None)
              \<and> Primary_Get D (index s) (Block blk) = Inr (k, v)))
   \<and> (\<forall>ik blk pk w.
         Err s = None \<and> Primary_IndexKey D (index s) k = Inr ik
       \<and> Index_Get D (index s) ik = (blk, True, None)
       \<and> Primary_Get D (index s) (Block blk) = Inr (pk, w) \<and> pk \<noteq> k
       \<longrightarrow> Get D s k = ([], False, None))"
proof
  show "Get D s k = (v, True, e) \<longleftrightarrow>
      e = None \<and> Err s = None \<and>
      (\<exists>ik blk. Primary_IndexKey D (index s) k = Inr ik
              \<and> Index_Get D (index s) ik = (blk, True, None)
              \<and> Primary_Get D (index s) (Block blk) = Inr (k, v))"
    by (auto simp: Get_def split: option.splits sum.splits prod.splits if_splits)
  show "\<forall>ik blk pk w.
         Err s = None \<and> Primary_IndexKey D (index s) k = Inr ik
       \<and> Index_Get D (index s) ik = (blk, True, None)
       \<and> Primary_Get D (index s) (Block blk) = Inr (pk, w) \<and> pk \<noteq> k
       \<longrightarrow> Get D s k = ([], False, None)"
    by (auto simp: Get_def)
qed

theorem Get_full_key_match_witness:
  "Get mem_deps mem_store [1, 2] = ([9], True, None)
   \<and> Get mem_deps mem_store [1, 3] = ([], False, None)"
proof -
  have found: "e = None \<and> Err mem_store = None \<and>
      (\<exists>ik blk. Primary_IndexKey mem_deps (index mem_store) [1, 2] = Inr ik
              \<and> Index_Get mem_deps (index mem_store) ik = (blk, True, None)
              \<and> Primary_Get mem_deps (index mem_store) (Block blk) = Inr ([1, 2], [9]))"
    if "e = None" for e :: "error option"
    using that mem_Err mem_IndexKey mem_Index_Get_12 mem_Primary_Get by blast
  from Get_full_key_match [of mem_deps mem_store "[1, 2]" "[9]" None] found [of None]
  have a: "Get mem_deps mem_store [1, 2] = ([9], True, None)" by blast
  have "Err mem_store = None \<and> Primary_IndexKey mem_deps (index mem_store) [1, 3] = Inr [1, 3]
       \<and> Index_Get mem_deps (index mem_store) [1, 3]
           = (\<lparr>Block = \<lparr>Offset = 0, Size = 3\<rparr>, KeySize = 2\<rparr>, True, None)
       \<and> Primary_Get mem_deps (index mem_store)
            (Block \<lparr>Block = \<lparr>Offset = 0, Size = 3\<rparr>, KeySize = 2\<rparr>) = Inr ([1, 2], [9])
       \<and> [1, 2] \<noteq> [1, 3 :: byte]"
    using mem_Err mem_IndexKey mem_Index_Get_13 mem_Primary_Get by simp
  with Get_full_key_match [of mem_deps mem_store "[1, 3]" "[]" None]
  have b: "Get mem_deps mem_store [1, 3] = ([], False, None)" by blast
  from a b show ?thesis ..
qed

text \<open>Claim C5. If \<open>Has\<close> reports the key as present, \<open>Put\<close> returns \<open>ErrKeyExists\<close> and
  the store is what it was: nothing is appended to the primary and the index is not
  touched.\<close>

theorem Put_existing_key:
  "Has D s k = (True, None) \<Longrightarrow> Put D s k v = (Some ErrKeyExists, s)"
  by (cases "Err s") (simp_all add: Put_def Has_def)

theorem Put_existing_key_witness:
  "Has mem_deps mem_store [1, 2] = (True, None)
   \<and> Put mem_deps mem_store [1, 2] [7] = (Some ErrKeyExists, mem_store)"
  using Put_existing_key [OF mem_Has, of "[7]"] mem_Has by simp

text \<open>Claim C6. For a key that is present (the index finds a block for its index key, and the
  primary holds this very key at that block), \<open>GetSize\<close> returns the \<open>Size\<close> of the block
  pointer held by the index minus the length of the key stored in the primary, with
  \<open>found = true\<close>. The subtraction is that of \<open>Size\<close>, a uint32.\<close>

theorem GetSize_present:
  "Primary_IndexKey D (index s) k = Inr ik \<Longrightarrow>
   Index_Get D (index s) ik = (blk, True, None) \<Longrightarrow>
   Primary_GetIndexKey D (index s) blk = Inr ik \<Longrightarrow>
   Primary_Get D (index s) (Block blk) = Inr (pk, v) \<Longrightarrow> pk = k \<Longrightarrow>
   GetSize D s k = (Size (Block blk) - of_nat (length pk), True, None)"
  by (simp add: GetSize_def)

theorem GetSize_present_witness:
  "GetSize mem_deps mem_store [1, 2] = (1, True, None)"
  using GetSize_present [OF mem_IndexKey mem_Index_Get_12 mem_Primary_GetIndexKey mem_Primary_Get refl]
  by simp

text \<open>Claim C10. If the index lookup inside \<open>Has\<close> returns \<open>found = false\<close> together with an
  error, \<open>Has\<close> returns \<open>(false, nil)\<close>: the error of the index is dropped.\<close>

theorem Has_drops_index_error:
  "Err s = None \<Longrightarrow> Primary_IndexKey D (index s) k = Inr ik \<Longrightarrow>
   Index_Get D (index s) ik = (blk, False, Some e) \<Longrightarrow>
   Has D s k = (False, None)"
  by (simp add: Has_def)

lemma read_failing_IndexKey: "Primary_IndexKey read_failing_deps (index mem_store) k = Inr k"
  by (simp add: mem_simps)

lemma read_failing_Index_Get:
  "Index_Get read_failing_deps (index mem_store) k
     = (\<lparr>Block = \<lparr>Offset = 0, Size = 0\<rparr>, KeySize = 0\<rparr>, False, Some (ErrIO ''read failed''))"
  by (simp add: mem_simps)

theorem Has_drops_index_error_witness:
  "Index_Get read_failing_deps (index mem_store) [1, 2]
     = (\<lparr>Block = \<lparr>Offset = 0, Size = 0\<rparr>, KeySize = 0\<rparr>, False, Some (ErrIO ''read failed''))
   \<and> Has read_failing_deps mem_store [1, 2] = (False, None)"
  using Has_drops_index_error [OF mem_Err read_failing_IndexKey read_failing_Index_Get]
    read_failing_Index_Get by simp

lemma err_commit: "commit D s = (r, s1) \<Longrightarrow> err s1 = err s"
  by (auto simp: commit_def split: prod.splits sum.splits option.splits)

lemma Flush_persists: "Err s \<noteq> None \<Longrightarrow> Err (Flush D s) \<noteq> None"
proof (cases "outstandingWork D s")
  case False
  assume "Err s \<noteq> None"
  with False show ?thesis by (simp add: Flush_def)
next
  case True
  assume a: "Err s \<noteq> None"
  obtain r s1 where c: "commit D s = (r, s1)" by (cases "commit D s")
  from err_commit [OF c] a have "err s1 \<noteq> None" by (simp add: Err_def)
  with True c show ?thesis by (cases r) (simp_all add: Flush_def Err_def setErr_def)
qed

lemma GetSize_ignores_err: "GetSize D (s\<lparr>err := x\<rparr>) k = GetSize D s k"
proof -
  have i: "index (s\<lparr>err := x\<rparr>) = index s" by simp
  show ?thesis unfolding GetSize_def i ..
qed

text \<open>Claim C7, as the code has it. When a \<open>Flush\<close> fails, its error is stored on the store.
  From then on \<open>Get\<close>, \<open>Has\<close> and \<open>Put\<close> return the stored error, and \<open>Put\<close> changes nothing;
  \<open>GetSize\<close> alone still answers, as it would without the stored error. A further \<open>Flush\<close>
  does not clear the error.\<close>

theorem failed_Flush_blocks:
  assumes "outstandingWork D s" and "commit D s = (Inl e, s1)"
  shows "Get D (Flush D s) k = ([], False, Some e)
       \<and> Has D (Flush D s) k = (False, Some e)
       \<and> Put D (Flush D s) k v = (Some e, Flush D s)
       \<and> GetSize D (Flush D s) k = GetSize D ((Flush D s)\<lparr>err := None\<rparr>) k
       \<and> Err (Flush D (Flush D s)) \<noteq> None"
proof -
  from assms have f: "Flush D s = setErr s1 e" by (simp add: Flush_def)
  then have e: "Err (Flush D s) = Some e" by (simp add: setErr_def Err_def)
  have 1: "Get D (Flush D s) k = ([], False, Some e)" by (simp add: Get_def e)
  have 2: "Has D (Flush D s) k = (False, Some e)" by (simp add: Has_def e)
  have 3: "Put D (Flush D s) k v = (Some e, Flush D s)" by (simp add: Put_def e)
  have 4: "GetSize D (Flush D s) k = GetSize D ((Flush D s)\<lparr>err := None\<rparr>) k"
    by (simp add: GetSize_ignores_err)
  have 5: "Err (Flush D (Flush D s)) \<noteq> None" by (rule Flush_persists) (simp add: e)
  from 1 2 3 4 5 show ?thesis by blast
qed

lemma wf_outstanding: "outstandingWork write_failing_deps mem_store"
  by (simp add: outstandingWork_def mem_simps)

lemma wf_commit:
  "commit write_failing_deps mem_store = (Inl (ErrIO ''write failed''), mem_store)"
  by (simp add: commit_def mem_simps)

lemma wf_Get: "Get write_failing_deps mem_store [1, 2] = ([9], True, None)"
  by (simp add: Get_def mem_simps)

lemma wf_Has: "Has write_failing_deps mem_store [1, 2] = (True, None)"
  by (simp add: Has_def mem_simps)

theorem failed_Flush_blocks_witness:
  "Get write_failing_deps (Flush write_failing_deps mem_store) [1, 2]
      = ([], False, Some (ErrIO ''write failed''))
   \<and> Has write_failing_deps (Flush write_failing_deps mem_store) [1, 2]
      = (False, Some (ErrIO ''write failed''))
   \<and> Put write_failing_deps (Flush write_failing_deps mem_store) [3] [7]
      = (Some (ErrIO ''write failed''), Flush write_failing_deps mem_store)"
  using failed_Flush_blocks [OF wf_outstanding wf_commit, of "[1, 2]" "[7]"]
        failed_Flush_blocks [OF wf_outstanding wf_commit, of "[3]" "[7]"]
  by simp

text \<open>Claim C7 as stated says that \<open>Get\<close> and \<open>Has\<close> still service queries after a failed
  \<open>Flush\<close>. On a store that holds the key \<open>[1, 2]\<close> and whose index file cannot be
  written, both find the key before the flush and return the stored error after it.\<close>

theorem reads_after_failed_Flush_counterexample:
  "Get write_failing_deps mem_store [1, 2] = ([9], True, None)
   \<and> Has write_failing_deps mem_store [1, 2] = (True, None)
   \<and> Flush write_failing_deps mem_store = mem_store\<lparr>err := Some (ErrIO ''write failed'')\<rparr>
   \<and> Get write_failing_deps (Flush write_failing_deps mem_store) [1, 2]
      = ([], False, Some (ErrIO ''write failed''))
   \<and> Has write_failing_deps (Flush write_failing_deps mem_store) [1, 2]
      = (False, Some (ErrIO ''write failed''))"
proof -
  have f: "Flush write_failing_deps mem_store = mem_store\<lparr>err := Some (ErrIO ''write failed'')\<rparr>"
    by (simp add: Flush_def wf_outstanding wf_commit setErr_def)
  have g: "Get write_failing_deps (mem_store\<lparr>err := Some (ErrIO ''write failed'')\<rparr>) [1, 2]
      = ([], False, Some (ErrIO ''write failed''))"
    by (simp add: Get_def Err_def)
  have h: "Has write_failing_deps (mem_store\<lparr>err := Some (ErrIO ''write failed'')\<rparr>) [1, 2]
      = (False, Some (ErrIO ''write failed''))"
    by (simp add: Has_def Err_def)
  from wf_Get wf_Has f g h show ?thesis by simp
qed

end
